theory Spec2Isabelle
  imports Main "HOL-Library.Word"
begin

section \<open>JavaScript strings\<close>

text \<open>
  A JavaScript string is a sequence of UTF-16 code units. The literals of \<^verbatim>\<open>cache.ts\<close> are
  ASCII, so a literal is the list of its character codes.
\<close>

type_synonym js_char = "16 word"
type_synonym js_string = "js_char list"

definition js :: "string \<Rightarrow> js_string" where
  "js s = map (\<lambda>c. word_of_nat (of_char c)) s"

text \<open>
  \<^verbatim>\<open>String.prototype.trim\<close> removes the code units of WhiteSpace and LineTerminator
  (ECMAScript 12.2 and 12.3) from both ends: TAB, LF, VT, FF, CR, SP, NBSP, the space
  separators U+1680, U+2000 to U+200A, U+202F, U+205F, U+3000, the line and paragraph
  separators U+2028 and U+2029, and U+FEFF.
\<close>

definition isWhiteSpace :: "js_char \<Rightarrow> bool" where
  "isWhiteSpace c =
     (c = 0x9 \<or> c = 0xA \<or> c = 0xB \<or> c = 0xC \<or> c = 0xD \<or> c = 0x20 \<or> c = 0xA0 \<or>
      c = 0x1680 \<or> (0x2000 \<le> c \<and> c \<le> 0x200A) \<or> c = 0x2028 \<or> c = 0x2029 \<or>
      c = 0x202F \<or> c = 0x205F \<or> c = 0x3000 \<or> c = 0xFEFF)"

definition trim :: "js_string \<Rightarrow> js_string" where
  "trim s = rev (dropWhile isWhiteSpace (rev (dropWhile isWhiteSpace s)))"

text \<open>\<^verbatim>\<open>s.split('\n')\<close>: the pieces between line feeds; the empty string gives one empty piece.\<close>

fun split_nl :: "js_string \<Rightarrow> js_string list" where
  "split_nl [] = [[]]"
| "split_nl (c # cs) =
     (if c = 0xA then [] # split_nl cs
      else (case split_nl cs of [] \<Rightarrow> [[c]] | x # xs \<Rightarrow> (c # x) # xs))"

text \<open>\<^verbatim>\<open>xs.join(sep)\<close> for an array of strings.\<close>

fun join_with :: "js_string \<Rightarrow> js_string list \<Rightarrow> js_string" where
  "join_with sep [] = []"
| "join_with sep [x] = x"
| "join_with sep (x # y # ys) = x @ sep @ join_with sep (y # ys)"

text \<open>An array inside a template literal is converted by \<^verbatim>\<open>toString\<close>, which joins with a comma.\<close>

definition array_toString :: "js_string list \<Rightarrow> js_string" where
  "array_toString xs = join_with (js '','') xs"

text \<open>A possibly undefined string inside a template literal.\<close>

definition template :: "js_string option \<Rightarrow> js_string" where
  "template v = (case v of None \<Rightarrow> js ''undefined'' | Some s \<Rightarrow> s)"

definition startsWith :: "js_string \<Rightarrow> js_string \<Rightarrow> bool" where
  "startsWith s p = (take (length p) s = p)"

section \<open>Errors, effects and the environment\<close>

text \<open>A thrown \<^verbatim>\<open>Error\<close>: its \<^verbatim>\<open>name\<close> and its \<^verbatim>\<open>message\<close>.\<close>

datatype js_error = JsError (err_name: js_string) (err_message: js_string)

definition new_Error :: "js_string \<Rightarrow> js_error" where
  "new_Error msg = JsError (js ''Error'') msg"

text \<open>
  What a call of \<^verbatim>\<open>restore\<close> or \<^verbatim>\<open>save\<close> does to the outside, in the order it does
  it: the calls of \<^verbatim>\<open>@actions/core\<close> that write (\<^verbatim>\<open>debug\<close>, \<^verbatim>\<open>info\<close>,
  \<^verbatim>\<open>warning\<close>, \<^verbatim>\<open>saveState\<close>, \<^verbatim>\<open>setOutput\<close>), of \<^verbatim>\<open>@actions/glob\<close>
  (\<^verbatim>\<open>hashFiles\<close>) and of \<^verbatim>\<open>@actions/cache\<close> (\<^verbatim>\<open>restoreCache\<close>,
  \<^verbatim>\<open>saveCache\<close>), each with its arguments.
\<close>

datatype event =
    Debug js_string
  | Info js_string
  | Warning js_string
  | SaveState js_string js_string
  | SetOutput js_string bool
  | HashFiles js_string
  | RestoreCache "js_string list" js_string "js_string list"
  | SaveCache "js_string list" js_string

text \<open>
  The outside as the module reads it: the answers of the three asynchronous library calls
  (a rejected promise is \<open>Inl\<close>), the state the runner hands to \<^verbatim>\<open>core.getState\<close> (the
  empty string for a name never saved), \<^verbatim>\<open>os.homedir()\<close>, \<^verbatim>\<open>os.type()\<close>,
  \<^verbatim>\<open>process.env['RUNNER_OS']\<close> (possibly undefined), \<^verbatim>\<open>process.cwd()\<close> and
  \<^verbatim>\<open>path.join\<close>.
\<close>

record env =
  hashFiles :: "js_string \<Rightarrow> js_error + js_string"
  restoreCache :: "js_string list \<Rightarrow> js_string \<Rightarrow> js_string list \<Rightarrow> js_error + js_string option"
  saveCache :: "js_string list \<Rightarrow> js_string \<Rightarrow> js_error + int"
  getState :: "js_string \<Rightarrow> js_string"
  homedir :: js_string
  os_type :: js_string
  RUNNER_OS :: "js_string option"
  cwd :: js_string
  path_join :: "js_string list \<Rightarrow> js_string"

section \<open>The module \<^verbatim>\<open>cache.ts\<close>\<close>

definition STATE_CACHE_PRIMARY_KEY :: js_string where
  "STATE_CACHE_PRIMARY_KEY = js ''cache-primary-key''"

definition CACHE_MATCHED_KEY :: js_string where
  "CACHE_MATCHED_KEY = js ''cache-matched-key''"

definition CACHE_KEY_PREFIX :: js_string where
  "CACHE_KEY_PREFIX = js ''setup-java''"

text \<open>\<^verbatim>\<open>cache.ReserveCacheError.name\<close>: the name of the class.\<close>

definition ReserveCacheError_name :: js_string where
  "ReserveCacheError_name = js ''ReserveCacheError''"

record PackageManager =
  id_pm :: js_string
  path :: "js_string list"
  pattern :: "js_string list"

definition getCoursierCachePath :: "env \<Rightarrow> js_string" where
  "getCoursierCachePath e =
     (if os_type e = js ''Linux'' then path_join e [homedir e, js ''.cache'', js ''coursier'']
      else if os_type e = js ''Darwin''
        then path_join e [homedir e, js ''Library'', js ''Caches'', js ''Coursier'']
      else path_join e [homedir e, js ''AppData'', js ''Local'', js ''Coursier'', js ''Cache''])"

definition supportedPackageManager :: "env \<Rightarrow> PackageManager list" where
  "supportedPackageManager e =
     [\<lparr>id_pm = js ''maven'',
       path = [path_join e [homedir e, js ''.m2'', js ''repository'']],
       pattern = [js ''**/pom.xml'']\<rparr>,
      \<lparr>id_pm = js ''gradle'',
       path = [path_join e [homedir e, js ''.gradle'', js ''caches'']],
       pattern = [js ''gradle/wrapper/gradle-wrapper.properties'',
                  js ''gradle.properties*'',
                  js ''settings.gradle*'']\<rparr>,
      \<lparr>id_pm = js ''sbt'',
       path = [path_join e [homedir e, js ''.ivy2'', js ''cache''],
               path_join e [homedir e, js ''.sbt''],
               getCoursierCachePath e,
               js ''!'' @ path_join e [homedir e, js ''.sbt'', js ''*.lock''],
               js ''!'' @ path_join e [homedir e, js ''**'', js ''ivydata-*.properties'']],
       pattern = [js ''**/*.sbt'',
                  js ''**/project/build.properties'',
                  js ''**/project/**.scala'',
                  js ''**/project/**.sbt'']\<rparr>]"

definition findPackageManager :: "env \<Rightarrow> js_string \<Rightarrow> js_error + PackageManager" where
  "findPackageManager e i =
     (case find (\<lambda>packageManager. id_pm packageManager = i) (supportedPackageManager e) of
        None \<Rightarrow> Inl (new_Error (js ''unknown package manager specified: '' @ i))
      | Some packageManager \<Rightarrow> Inr packageManager)"

text \<open>
  The patterns \<^verbatim>\<open>computeCacheKey\<close> hashes (its local \<^verbatim>\<open>pattern\<close>): a string is truthy
  when it is not empty.
\<close>

definition effective_pattern :: "PackageManager \<Rightarrow> js_string \<Rightarrow> js_string list" where
  "effective_pattern packageManager cacheDependencyPath =
     (if cacheDependencyPath \<noteq> [] then split_nl (trim cacheDependencyPath)
      else pattern packageManager)"

definition computeCacheKey ::
  "env \<Rightarrow> PackageManager \<Rightarrow> js_string \<Rightarrow> event list \<times> (js_error + js_string)" where
  "computeCacheKey e packageManager cacheDependencyPath =
     (let pat = effective_pattern packageManager cacheDependencyPath;
          arg = join_with (js [CHR 0x0A]) pat
      in case hashFiles e arg of
           Inl err \<Rightarrow> ([HashFiles arg], Inl err)
         | Inr fileHash \<Rightarrow>
             if fileHash = [] then
               ([HashFiles arg],
                Inl (new_Error (js ''No file in '' @ cwd e @ js '' matched to ['' @
                       array_toString pat @
                       js ''], make sure you have checked out the target repository'')))
             else
               ([HashFiles arg],
                Inr (CACHE_KEY_PREFIX @ js ''-'' @ template (RUNNER_OS e) @ js ''-'' @
                       id_pm packageManager @ js ''-'' @ fileHash)))"

definition restore ::
  "env \<Rightarrow> js_string \<Rightarrow> js_string \<Rightarrow> bool \<Rightarrow> event list \<times> (js_error + unit)" where
  "restore e i cacheDependencyPath performRestore =
     (case findPackageManager e i of
        Inl err \<Rightarrow> ([], Inl err)
      | Inr packageManager \<Rightarrow>
          (case computeCacheKey e packageManager cacheDependencyPath of
             (ev1, Inl err) \<Rightarrow> (ev1, Inl err)
           | (ev1, Inr primaryKey) \<Rightarrow>
               (let ev2 = ev1 @ [Debug (js ''primary key is '' @ primaryKey),
                                 SaveState STATE_CACHE_PRIMARY_KEY primaryKey]
                in if performRestore then
                     (let restoreKeys = [CACHE_KEY_PREFIX @ js ''-'' @ template (RUNNER_OS e) @
                                           js ''-'' @ id_pm packageManager];
                          ev3 = ev2 @ [RestoreCache (path packageManager) primaryKey restoreKeys]
                      in case restoreCache e (path packageManager) primaryKey restoreKeys of
                           Inl err \<Rightarrow> (ev3, Inl err)
                         | Inr matchedKey \<Rightarrow>
                             (case matchedKey of
                                Some m \<Rightarrow>
                                  if m \<noteq> [] then
                                    (ev3 @ [SaveState CACHE_MATCHED_KEY m,
                                            SetOutput (js ''cache-hit'') (m = primaryKey),
                                            Info (js ''Cache restored from key: '' @ m)],
                                     Inr ())
                                  else
                                    (ev3 @ [SetOutput (js ''cache-hit'') False,
                                            Info (id_pm packageManager @
                                                  js '' cache is not found for key '' @ primaryKey)],
                                     Inr ())
                              | None \<Rightarrow>
                                  (ev3 @ [SetOutput (js ''cache-hit'') False,
                                          Info (id_pm packageManager @
                                                js '' cache is not found for key '' @ primaryKey)],
                                   Inr ())))
                   else (ev2, Inr ()))))"

definition isProbablyGradleDaemonProblem :: "env \<Rightarrow> PackageManager \<Rightarrow> js_error \<Rightarrow> bool" where
  "isProbablyGradleDaemonProblem e packageManager error =
     (if id_pm packageManager \<noteq> js ''gradle'' \<or> RUNNER_OS e \<noteq> Some (js ''Windows'') then False
      else (let message = (if err_message error \<noteq> [] then err_message error else js '''')
            in startsWith message (js ''Tar failed with error: '')))"

definition gradle_daemon_warning :: js_string where
  \<open>gradle_daemon_warning =
     js ''Failed to save Gradle cache on Windows. If tar.exe reported "Permission denied", try to run Gradle with `--no-daemon` option. Refer to https://github.com/actions/cache/issues/454 for details.''\<close>

text \<open>The \<^verbatim>\<open>try\<close> block of \<^verbatim>\<open>save\<close> with its \<^verbatim>\<open>catch\<close>.\<close>

definition save_try ::
  "env \<Rightarrow> PackageManager \<Rightarrow> js_string \<Rightarrow> event list \<times> (js_error + unit)" where
  "save_try e packageManager primaryKey =
     (case saveCache e (path packageManager) primaryKey of
        Inr cacheId \<Rightarrow>
          ([SaveCache (path packageManager) primaryKey,
            Info (js ''Cache saved with the key: '' @ primaryKey)], Inr ())
      | Inl err \<Rightarrow>
          if err_name err = ReserveCacheError_name then
            ([SaveCache (path packageManager) primaryKey, Info (err_message err)], Inr ())
          else if isProbablyGradleDaemonProblem e packageManager err then
            ([SaveCache (path packageManager) primaryKey, Warning gradle_daemon_warning], Inl err)
          else ([SaveCache (path packageManager) primaryKey], Inl err))"

definition save :: "env \<Rightarrow> js_string \<Rightarrow> bool \<Rightarrow> event list \<times> (js_error + unit)" where
  "save e i forceUpdate =
     (case findPackageManager e i of
        Inl err \<Rightarrow> ([], Inl err)
      | Inr packageManager \<Rightarrow>
          (let matchedKey = getState e CACHE_MATCHED_KEY;
               primaryKey = getState e STATE_CACHE_PRIMARY_KEY
           in if \<not> forceUpdate then
                (if primaryKey = [] then
                   ([Warning (js ''Error retrieving key from state.'')], Inr ())
                 else if matchedKey = primaryKey then
                   ([Info (js ''Cache hit occurred on the primary key '' @ primaryKey @
                           js '', not saving cache.'')], Inr ())
                 else save_try e packageManager primaryKey)
              else save_try e packageManager primaryKey))"

section \<open>Reading a trace\<close>

text \<open>The calls of the artifact store in a trace, and the writes of one slot of the saved state.\<close>

fun is_store_call :: "event \<Rightarrow> bool" where
  "is_store_call (RestoreCache paths key restoreKeys) = True"
| "is_store_call (SaveCache paths key) = True"
| "is_store_call _ = False"

definition store_calls :: "event list \<Rightarrow> event list" where
  "store_calls evs = filter is_store_call evs"

fun writes_slot :: "js_string \<Rightarrow> event \<Rightarrow> bool" where
  "writes_slot slot (SaveState name v) = (name = slot)"
| "writes_slot slot _ = False"

definition slot_writes :: "js_string \<Rightarrow> event list \<Rightarrow> event list" where
  "slot_writes slot evs = filter (writes_slot slot) evs"

section \<open>Concrete environments\<close>

text \<open>
  A Linux runner in \<^verbatim>\<open>/work\<close> whose files hash to \<^verbatim>\<open>abc\<close>, with an empty store and no
  saved state; and variations of it.
\<close>

definition env0 :: env where
  "env0 = \<lparr>hashFiles = (\<lambda>s. Inr (js ''abc'')),
            restoreCache = (\<lambda>p k r. Inr None),
            saveCache = (\<lambda>p k. Inr 0),
            getState = (\<lambda>n. []),
            homedir = js ''/home/runner'',
            os_type = js ''Linux'',
            RUNNER_OS = Some (js ''Linux''),
            cwd = js ''/work'',
            path_join = join_with (js ''/'')\<rparr>"

definition env_no_files :: env where
  "env_no_files = env0\<lparr>hashFiles := (\<lambda>s. Inr [])\<rparr>"

definition env_other_dir :: env where
  "env_other_dir = env0\<lparr>cwd := js ''/elsewhere'', homedir := js ''/root'',
                         getState := (\<lambda>n. js ''x''), os_type := js ''Darwin''\<rparr>"

definition env_miss :: env where
  "env_miss = env0\<lparr>getState := (\<lambda>n. if n = STATE_CACHE_PRIMARY_KEY
                                        then js ''setup-java-Linux-maven-abc''
                                      else if n = CACHE_MATCHED_KEY
                                        then js ''setup-java-Linux-maven''
                                      else [])\<rparr>"

definition env_hit :: env where
  "env_hit = env0\<lparr>getState := (\<lambda>n. if n = STATE_CACHE_PRIMARY_KEY \<or> n = CACHE_MATCHED_KEY
                                       then js ''setup-java-Linux-maven-abc'' else [])\<rparr>"

definition env_exact :: env where
  "env_exact = env0\<lparr>restoreCache := (\<lambda>paths key restoreKeys. Inr (Some key))\<rparr>"

definition env_fallback :: env where
  "env_fallback = env0\<lparr>restoreCache := (\<lambda>paths key restoreKeys.
                      Inr (Some (js ''setup-java-Linux-maven-old'')))\<rparr>"

definition env_reserved :: env where
  "env_reserved = env_miss\<lparr>saveCache := (\<lambda>paths key.
       Inl (JsError ReserveCacheError_name
              (js ''Unable to reserve cache with key setup-java-Linux-maven-abc, another job may be creating this cache.'')))\<rparr>"

definition env_invalid :: env where
  "env_invalid = env_miss\<lparr>saveCache := (\<lambda>paths key.
       Inl (JsError (js ''ValidationError'') (js ''Validation failed'')))\<rparr>"

definition env_tar :: env where
  "env_tar = env_miss\<lparr>RUNNER_OS := Some (js ''Windows''),
       saveCache := (\<lambda>paths key.
         Inl (JsError (js ''Error'')
                (js ''Tar failed with error: The process tar.exe failed with exit code 2'')))\<rparr>"

definition env_hash_rejects :: env where
  "env_hash_rejects = env0\<lparr>hashFiles := (\<lambda>s.
       Inl (JsError (js ''Error'') (js ''EACCES: permission denied, open /work/pom.xml'')))\<rparr>"

section \<open>Auxiliary lemmas\<close>

lemma of_char_lt: "(of_char c :: nat) < 256"
proof -
  have "(of_char c :: nat) mod 256 = of_char c" by (rule of_char_mod_256)
  moreover have "(of_char c :: nat) mod 256 < 256" by simp
  ultimately show ?thesis by simp
qed

lemma unat_code_unit: "unat (word_of_nat (of_char c) :: 16 word) = of_char c"
proof -
  have "(of_char c :: nat) < 2 ^ 16" by (rule less_trans [OF of_char_lt]) simp
  then show ?thesis by (simp add: unat_of_nat take_bit_nat_eq_self)
qed

lemma js_eq_iff: "js a = js b \<longleftrightarrow> a = b"
proof -
  have "inj (\<lambda>c::char. (word_of_nat (of_char c) :: 16 word))"
  proof (rule injI)
    fix x y :: char
    assume h: "(word_of_nat (of_char x) :: 16 word) = word_of_nat (of_char y)"
    then have "unat (word_of_nat (of_char x) :: 16 word) = unat (word_of_nat (of_char y) :: 16 word)" by simp
    then have "(of_char x :: nat) = of_char y" by (simp only: unat_code_unit)
    then show "x = y" by simp
  qed
  then show ?thesis unfolding js_def by (simp add: inj_map_eq_map)
qed


lemma split_nl_not_Nil: "split_nl s \<noteq> []"
  by (induction s) (auto split: list.splits)

lemma join_split_nl: "join_with [0xA] (split_nl s) = s"
proof (induction s)
  case Nil
  show ?case by simp
next
  case (Cons c cs)
  obtain x xs where sp: "split_nl cs = x # xs"
    using split_nl_not_Nil [of cs] by (cases "split_nl cs") auto
  show ?case
  proof (cases "c = 0xA")
    case True
    with Cons sp show ?thesis by simp
  next
    case False
    with Cons sp show ?thesis by (cases xs) auto
  qed
qed

lemma js_nl: "js [CHR 0x0A] = [0xA]"
  by (simp add: js_def)

lemma find_maven:
  "findPackageManager e (js ''maven'') = Inr (supportedPackageManager e ! 0)"
  by (simp add: findPackageManager_def supportedPackageManager_def)


lemma find_sbt:
  "findPackageManager e (js ''sbt'') = Inr (supportedPackageManager e ! 2)"
  by (simp add: findPackageManager_def supportedPackageManager_def js_eq_iff)

lemma find_unknown:
  "i \<notin> {js ''maven'', js ''gradle'', js ''sbt''} \<Longrightarrow>
   findPackageManager e i = Inl (new_Error (js ''unknown package manager specified: '' @ i))"
  by (auto simp add: findPackageManager_def supportedPackageManager_def)

lemma find_supported:
  assumes "i \<in> {js ''maven'', js ''gradle'', js ''sbt''}"
  shows "\<exists>pm. findPackageManager e i = Inr pm \<and> id_pm pm = i \<and> pm \<in> set (supportedPackageManager e)"
  using assms
  by (auto simp add: findPackageManager_def supportedPackageManager_def js_eq_iff)

lemma supported_ids:
  "map id_pm (supportedPackageManager e) = [js ''maven'', js ''gradle'', js ''sbt'']"
  by (simp add: supportedPackageManager_def)

lemma slots_distinct: "STATE_CACHE_PRIMARY_KEY \<noteq> CACHE_MATCHED_KEY"
  by (simp add: STATE_CACHE_PRIMARY_KEY_def CACHE_MATCHED_KEY_def js_eq_iff)

lemma save_try_store_calls:
  "store_calls (fst (save_try e pm k)) = [SaveCache (path pm) k]"
  by (simp add: save_try_def store_calls_def split: sum.splits)

lemma store_calls_single:
  "store_calls [Warning w] = []" "store_calls [Info m] = []"
  by (simp_all add: store_calls_def)

lemma save_unforced:
  assumes "findPackageManager e i = Inr pm"
  shows "save e i False =
     (if getState e STATE_CACHE_PRIMARY_KEY = [] then
        ([Warning (js ''Error retrieving key from state.'')], Inr ())
      else if getState e CACHE_MATCHED_KEY = getState e STATE_CACHE_PRIMARY_KEY then
        ([Info (js ''Cache hit occurred on the primary key '' @
                getState e STATE_CACHE_PRIMARY_KEY @ js '', not saving cache.'')], Inr ())
      else save_try e pm (getState e STATE_CACHE_PRIMARY_KEY))"
  using assms by (simp add: save_def Let_def)


lemma save_forced:
  assumes "findPackageManager e i = Inr pm"
  shows "save e i True = save_try e pm (getState e STATE_CACHE_PRIMARY_KEY)"
  using assms by (simp add: save_def Let_def)

lemma fst_computeCacheKey:
  "fst (computeCacheKey e pm cdp) =
     [HashFiles (join_with (js [CHR 0x0A]) (effective_pattern pm cdp))]"
  by (simp add: computeCacheKey_def Let_def split: sum.splits)

lemma restore_unfold:
  assumes "findPackageManager e i = Inr pm"
    and "snd (computeCacheKey e pm cdp) = Inr k"
  shows "restore e i cdp performRestore =
     (let ev2 = [HashFiles (join_with (js [CHR 0x0A]) (effective_pattern pm cdp)),
                 Debug (js ''primary key is '' @ k), SaveState STATE_CACHE_PRIMARY_KEY k];
          restoreKeys = [CACHE_KEY_PREFIX @ js ''-'' @ template (RUNNER_OS e) @ js ''-'' @ id_pm pm];
          ev3 = ev2 @ [RestoreCache (path pm) k restoreKeys];
          miss = (ev3 @ [SetOutput (js ''cache-hit'') False,
                         Info (id_pm pm @ js '' cache is not found for key '' @ k)], Inr ())
      in if performRestore then
           (case restoreCache e (path pm) k restoreKeys of
              Inl err \<Rightarrow> (ev3, Inl err)
            | Inr None \<Rightarrow> miss
            | Inr (Some m) \<Rightarrow>
                if m \<noteq> [] then
                  (ev3 @ [SaveState CACHE_MATCHED_KEY m, SetOutput (js ''cache-hit'') (m = k),
                          Info (js ''Cache restored from key: '' @ m)], Inr ())
                else miss)
         else (ev2, Inr ()))"
proof -
  obtain ev where c: "computeCacheKey e pm cdp = (ev, Inr k)"
    using assms(2) by (cases "computeCacheKey e pm cdp") simp
  have ev: "ev = [HashFiles (join_with (js [CHR 0x0A]) (effective_pattern pm cdp))]"
    using fst_computeCacheKey [of e pm cdp] c by simp
  show ?thesis
    by (simp add: restore_def assms(1) c ev Let_def split: sum.splits option.splits)
qed

lemma find_id:
  assumes "findPackageManager e i = Inr pm"
  shows "id_pm pm = i"
proof -
  from assms have "find (\<lambda>p. id_pm p = i) (supportedPackageManager e) = Some pm"
    by (simp add: findPackageManager_def split: option.splits)
  then show ?thesis
    by (auto simp add: find_Some_iff)
qed

lemmas eval_env = env0_def env_no_files_def env_other_dir_def env_miss_def env_hit_def
  env_exact_def env_fallback_def env_reserved_def env_invalid_def env_tar_def

lemmas eval_consts = STATE_CACHE_PRIMARY_KEY_def CACHE_MATCHED_KEY_def CACHE_KEY_PREFIX_def
  ReserveCacheError_name_def template_def array_toString_def new_Error_def

lemma maven_key:
  assumes "hashFiles e = hashFiles env0" and "RUNNER_OS e = RUNNER_OS env0"
  shows "snd (computeCacheKey e (supportedPackageManager e ! 0) []) =
           Inr (js ''setup-java-Linux-maven-abc'')"
  by (simp add: computeCacheKey_def assms effective_pattern_def supportedPackageManager_def
      eval_env eval_consts js_def)

lemma supported_maven: "js ''maven'' \<in> {js ''maven'', js ''gradle'', js ''sbt''}"
  by simp

lemma maven_path:
  assumes "path_join e = join_with (js ''/'')" and "homedir e = js ''/home/runner''"
  shows "path (supportedPackageManager e ! 0) = [js ''/home/runner/.m2/repository'']"
  by (simp add: supportedPackageManager_def assms js_def)


lemma state_env_miss:
  "getState env_miss STATE_CACHE_PRIMARY_KEY = js ''setup-java-Linux-maven-abc''"
  "getState env_miss CACHE_MATCHED_KEY = js ''setup-java-Linux-maven''"
  using slots_distinct by (simp_all add: env_miss_def)

lemma state_env_hit:
  "getState env_hit STATE_CACHE_PRIMARY_KEY = js ''setup-java-Linux-maven-abc''"
  "getState env_hit CACHE_MATCHED_KEY = js ''setup-java-Linux-maven-abc''"
  by (simp_all add: env_hit_def)

lemma key_facts:
  "js ''setup-java-Linux-maven-abc'' \<noteq> []"
  "js ''setup-java-Linux-maven'' \<noteq> js ''setup-java-Linux-maven-abc''"
  by (simp_all add: js_eq_iff) (simp add: js_def)

lemma join_with_Cons: "join_with sep (p # ps) = p @ concat (map ((@) sep) ps)"
  by (induction ps arbitrary: p) simp_all

lemma array_toString_commas:
  "array_toString ps =
     (case ps of [] \<Rightarrow> [] | p # qs \<Rightarrow> p @ concat (map ((@) (js '','')) qs))"
  by (cases ps) (simp_all add: array_toString_def join_with_Cons)

section \<open>Package manager lookup\<close>

text \<open>
  C8: for an id outside maven, gradle and sbt, both \<^verbatim>\<open>restore\<close> and \<^verbatim>\<open>save\<close> throw an
  error whose message is \<^verbatim>\<open>unknown package manager specified: \<close> followed by the id, and
  the trace is empty: nothing was hashed, written to the state or asked of the store.
\<close>

theorem unknown_package_manager_fails:
  assumes "i \<notin> {js ''maven'', js ''gradle'', js ''sbt''}"
  shows "restore e i cacheDependencyPath performRestore =
           ([], Inl (new_Error (js ''unknown package manager specified: '' @ i))) \<and>
         save e i forceUpdate =
           ([], Inl (new_Error (js ''unknown package manager specified: '' @ i)))"
  using find_unknown [OF assms, of e] by (simp add: restore_def save_def)

text \<open>The id \<^verbatim>\<open>ant\<close> of the tests.\<close>

theorem unknown_package_manager_fails_witness:
  "js ''ant'' \<notin> {js ''maven'', js ''gradle'', js ''sbt''} \<and>
   restore env0 (js ''ant'') [] True =
     ([], Inl (JsError (js ''Error'') (js ''unknown package manager specified: ant''))) \<and>
   save env0 (js ''ant'') False =
     ([], Inl (JsError (js ''Error'') (js ''unknown package manager specified: ant'')))"
proof -
  have h: "js ''ant'' \<notin> {js ''maven'', js ''gradle'', js ''sbt''}"
    by (simp add: js_eq_iff)
  have m: "js ''unknown package manager specified: '' @ js ''ant'' =
           js ''unknown package manager specified: ant''"
    by (simp add: js_def)
  from unknown_package_manager_fails [OF h, of env0 "[]" True False] h m
  show ?thesis by (simp add: new_Error_def)
qed

section \<open>The cache key\<close>

text \<open>
  C9: \<^verbatim>\<open>computeCacheKey\<close> returns a key exactly when the hash is a non-empty string, and
  the key is then the prefix \<^verbatim>\<open>setup-java\<close>, the value of \<^verbatim>\<open>RUNNER_OS\<close>, the id of the
  package manager and the hash, joined by hyphens.
\<close>

theorem computeCacheKey_format:
  "CACHE_KEY_PREFIX = js ''setup-java'' \<and>
   (snd (computeCacheKey e pm cdp) = Inr k \<longleftrightarrow>
      (\<exists>h. h \<noteq> [] \<and>
           hashFiles e (join_with (js [CHR 0x0A]) (effective_pattern pm cdp)) = Inr h \<and>
           k = CACHE_KEY_PREFIX @ js ''-'' @ template (RUNNER_OS e) @ js ''-'' @ id_pm pm @
               js ''-'' @ h)) \<and>
   (\<forall>platform. RUNNER_OS e = Some platform \<longrightarrow> template (RUNNER_OS e) = platform)"
  by (auto simp add: computeCacheKey_def CACHE_KEY_PREFIX_def template_def Let_def
      split: sum.splits)

text \<open>Maven on the Linux runner.\<close>

theorem computeCacheKey_format_witness:
  "snd (computeCacheKey env0 (supportedPackageManager env0 ! 0) []) =
     Inr (js ''setup-java-Linux-maven-abc'')"
proof -
  have "hashFiles env0 (join_with (js [CHR 0x0A])
          (effective_pattern (supportedPackageManager env0 ! 0) [])) = Inr (js ''abc'')"
    by (simp add: env0_def)
  moreover have "js ''abc'' \<noteq> []" by (simp add: js_def)
  moreover have "js ''setup-java-Linux-maven-abc'' =
                 CACHE_KEY_PREFIX @ js ''-'' @ template (RUNNER_OS env0) @ js ''-'' @
                 id_pm (supportedPackageManager env0 ! 0) @ js ''-'' @ js ''abc''"
    by (simp add: CACHE_KEY_PREFIX_def template_def env0_def supportedPackageManager_def js_def)
  ultimately show ?thesis
    using computeCacheKey_format [of env0 "supportedPackageManager env0 ! 0" "[]"
        "js ''setup-java-Linux-maven-abc''"]
    by blast
qed

text \<open>
  C4: the key is determined by the platform, the descriptor, the override pattern and the
  answer of the hashing primitive: two environments that agree on \<^verbatim>\<open>RUNNER_OS\<close> and on the
  hash of the effective patterns produce the same key, whatever else differs; when they
  also agree on the working directory the whole outcome is the same.
\<close>

theorem computeCacheKey_is_deterministic:
  assumes "RUNNER_OS e2 = RUNNER_OS e1"
    and "hashFiles e2 (join_with (js [CHR 0x0A]) (effective_pattern pm cdp)) =
         hashFiles e1 (join_with (js [CHR 0x0A]) (effective_pattern pm cdp))"
  shows "(snd (computeCacheKey e1 pm cdp) = Inr k \<longleftrightarrow> snd (computeCacheKey e2 pm cdp) = Inr k) \<and>
         (cwd e2 = cwd e1 \<longrightarrow> computeCacheKey e2 pm cdp = computeCacheKey e1 pm cdp)"
  using assms by (auto simp add: computeCacheKey_def Let_def split: sum.splits)

text \<open>Two runners that differ in working directory, home directory, system and saved state.\<close>

theorem computeCacheKey_is_deterministic_witness:
  "RUNNER_OS env_other_dir = RUNNER_OS env0 \<and>
   hashFiles env_other_dir (js ''**/pom.xml'') = hashFiles env0 (js ''**/pom.xml'') \<and>
   cwd env_other_dir \<noteq> cwd env0 \<and>
   snd (computeCacheKey env0 (supportedPackageManager env0 ! 0) []) =
     Inr (js ''setup-java-Linux-maven-abc'') \<and>
   snd (computeCacheKey env_other_dir (supportedPackageManager env0 ! 0) []) =
     Inr (js ''setup-java-Linux-maven-abc'')"
proof -
  let ?pm = "supportedPackageManager env0 ! 0"
  have a: "join_with (js [CHR 0x0A]) (effective_pattern ?pm []) = js ''**/pom.xml''"
    by (simp add: effective_pattern_def supportedPackageManager_def)
  have h1: "RUNNER_OS env_other_dir = RUNNER_OS env0"
    by (simp add: env_other_dir_def)
  have h2: "hashFiles env_other_dir (js ''**/pom.xml'') = hashFiles env0 (js ''**/pom.xml'')"
    by (simp add: env_other_dir_def)
  have c: "cwd env_other_dir \<noteq> cwd env0"
    by (simp add: env_other_dir_def env0_def js_eq_iff)
  have k: "snd (computeCacheKey env0 ?pm []) = Inr (js ''setup-java-Linux-maven-abc'')"
    by (simp add: computeCacheKey_def a env0_def CACHE_KEY_PREFIX_def template_def
        supportedPackageManager_def js_def)
  from computeCacheKey_is_deterministic [of env_other_dir env0 ?pm "[]"
      "js ''setup-java-Linux-maven-abc''"] h1 h2 a k
  have "snd (computeCacheKey env_other_dir ?pm []) = Inr (js ''setup-java-Linux-maven-abc'')"
    by simp
  with h1 h2 c k show ?thesis by simp
qed

text \<open>
  C5: \<^verbatim>\<open>computeCacheKey\<close> throws exactly when the hashing primitive rejects or answers
  with the empty string. A rejection is passed on as it is. On the empty string the error
  is the one the function makes itself: its message is \<^verbatim>\<open>No file in \<close>, the working
  directory, \<^verbatim>\<open> matched to [\<close>, the effective patterns separated by commas, and
  \<^verbatim>\<open>], make sure you have checked out the target repository\<close>. Every key returned ends
  with a non-empty hash.
\<close>

theorem computeCacheKey_failure:
  "(isl (snd (computeCacheKey e pm cdp)) \<longleftrightarrow>
      isl (hashFiles e (join_with (js [CHR 0x0A]) (effective_pattern pm cdp))) \<or>
      hashFiles e (join_with (js [CHR 0x0A]) (effective_pattern pm cdp)) = Inr []) \<and>
   (\<forall>err. hashFiles e (join_with (js [CHR 0x0A]) (effective_pattern pm cdp)) = Inl err \<longrightarrow>
      computeCacheKey e pm cdp =
        ([HashFiles (join_with (js [CHR 0x0A]) (effective_pattern pm cdp))], Inl err)) \<and>
   (hashFiles e (join_with (js [CHR 0x0A]) (effective_pattern pm cdp)) = Inr [] \<longrightarrow>
      computeCacheKey e pm cdp =
        ([HashFiles (join_with (js [CHR 0x0A]) (effective_pattern pm cdp))],
         Inl (JsError (js ''Error'')
               (js ''No file in '' @ cwd e @ js '' matched to ['' @
                (case effective_pattern pm cdp of
                   [] \<Rightarrow> []
                 | p # ps \<Rightarrow> p @ concat (map ((@) (js '','')) ps)) @
                js ''], make sure you have checked out the target repository'')))) \<and>
   (\<forall>k. snd (computeCacheKey e pm cdp) = Inr k \<longrightarrow>
        (\<exists>h. h \<noteq> [] \<and>
             hashFiles e (join_with (js [CHR 0x0A]) (effective_pattern pm cdp)) = Inr h \<and>
             k = CACHE_KEY_PREFIX @ js ''-'' @ template (RUNNER_OS e) @ js ''-'' @ id_pm pm @
                 js ''-'' @ h))"
  by (auto simp add: computeCacheKey_def Let_def new_Error_def array_toString_commas
      split: sum.splits)

text \<open>
  A rejected hash; maven and sbt in a directory without their files; gradle with a two-line
  override that matches nothing; and maven in a directory with \<^verbatim>\<open>pom.xml\<close>.
\<close>

theorem computeCacheKey_failure_witness:
  "computeCacheKey env_hash_rejects (supportedPackageManager env_hash_rejects ! 0) [] =
     ([HashFiles (js ''**/pom.xml'')],
      Inl (JsError (js ''Error'') (js ''EACCES: permission denied, open /work/pom.xml''))) \<and>
   computeCacheKey env_no_files (supportedPackageManager env_no_files ! 0) [] =
     ([HashFiles (js ''**/pom.xml'')],
      Inl (JsError (js ''Error'')
        (js ''No file in /work matched to [**/pom.xml], make sure you have checked out the target repository''))) \<and>
   snd (computeCacheKey env_no_files (supportedPackageManager env_no_files ! 2) []) =
     Inl (JsError (js ''Error'')
       (js ''No file in /work matched to [**/*.sbt,**/project/build.properties,**/project/**.scala,**/project/**.sbt], make sure you have checked out the target repository'')) \<and>
   snd (computeCacheKey env_no_files (supportedPackageManager env_no_files ! 1)
          (js (''*.gradle*'' @ [CHR 0x0A] @ ''sub-project2/**/*.gradle*'' @ [CHR 0x0A]))) =
     Inl (JsError (js ''Error'')
       (js ''No file in /work matched to [*.gradle*,sub-project2/**/*.gradle*], make sure you have checked out the target repository'')) \<and>
   \<not> isl (snd (computeCacheKey env0 (supportedPackageManager env0 ! 0) []))"
proof -
  let ?m = "supportedPackageManager env_hash_rejects ! 0"
  let ?n = "supportedPackageManager env_no_files ! 0"
  let ?s = "supportedPackageManager env_no_files ! 2"
  let ?g = "supportedPackageManager env_no_files ! 1"
  let ?q = "supportedPackageManager env0 ! 0"
  let ?o = "js (''*.gradle*'' @ [CHR 0x0A] @ ''sub-project2/**/*.gradle*'' @ [CHR 0x0A])"
  have am: "join_with (js [CHR 0x0A]) (effective_pattern ?m []) = js ''**/pom.xml''"
    and an: "join_with (js [CHR 0x0A]) (effective_pattern ?n []) = js ''**/pom.xml''"
    and aq: "join_with (js [CHR 0x0A]) (effective_pattern ?q []) = js ''**/pom.xml''"
    by (simp_all add: effective_pattern_def supportedPackageManager_def)
  have hm: "hashFiles env_hash_rejects (js ''**/pom.xml'') =
            Inl (JsError (js ''Error'') (js ''EACCES: permission denied, open /work/pom.xml''))"
    by (simp add: env_hash_rejects_def)
  have hn: "\<And>s. hashFiles env_no_files s = Inr []"
    by (simp add: env_no_files_def)
  have hq: "hashFiles env0 (js ''**/pom.xml'') = Inr (js ''abc'')"
    by (simp add: env0_def)
  have ne: "js ''abc'' \<noteq> []"
    by (simp add: js_def)
  have c: "cwd env_no_files = js ''/work''"
    by (simp add: env_no_files_def env0_def)
  have pn: "effective_pattern ?n [] = [js ''**/pom.xml'']"
    by (simp add: effective_pattern_def supportedPackageManager_def)
  have ps: "effective_pattern ?s [] =
              [js ''**/*.sbt'', js ''**/project/build.properties'', js ''**/project/**.scala'',
               js ''**/project/**.sbt'']"
    by (simp add: effective_pattern_def supportedPackageManager_def)
  have po: "\<And>d. effective_pattern d ?o = [js ''*.gradle*'', js ''sub-project2/**/*.gradle*'']"
    by (simp add: effective_pattern_def trim_def isWhiteSpace_def js_def)
  have 1: "computeCacheKey env_hash_rejects ?m [] =
     ([HashFiles (js ''**/pom.xml'')],
      Inl (JsError (js ''Error'') (js ''EACCES: permission denied, open /work/pom.xml'')))"
    using computeCacheKey_failure [of env_hash_rejects ?m "[]"] hm by (simp add: am)
  have 2: "computeCacheKey env_no_files ?n [] =
     ([HashFiles (js ''**/pom.xml'')],
      Inl (JsError (js ''Error'')
        (js ''No file in /work matched to [**/pom.xml], make sure you have checked out the target repository'')))"
    using computeCacheKey_failure [of env_no_files ?n "[]"]
    by (simp add: hn an c pn) (simp add: js_def)
  have 3: "snd (computeCacheKey env_no_files ?s []) =
     Inl (JsError (js ''Error'')
       (js ''No file in /work matched to [**/*.sbt,**/project/build.properties,**/project/**.scala,**/project/**.sbt], make sure you have checked out the target repository''))"
    using computeCacheKey_failure [of env_no_files ?s "[]"]
    by (simp add: hn c ps) (simp add: js_def)
  have 4: "snd (computeCacheKey env_no_files ?g ?o) =
     Inl (JsError (js ''Error'')
       (js ''No file in /work matched to [*.gradle*,sub-project2/**/*.gradle*], make sure you have checked out the target repository''))"
    using computeCacheKey_failure [of env_no_files ?g ?o, unfolded po hn c]
    by (simp add: js_def)
  have 5: "\<not> isl (snd (computeCacheKey env0 ?q []))"
    using computeCacheKey_failure [of env0 ?q "[]"] hq ne by (simp add: aq)
  from 1 2 3 4 5 show ?thesis by (simp only: simp_thms)
qed

text \<open>
  The failure is not only the empty hash: here \<^verbatim>\<open>hashFiles\<close> rejects, and
  \<^verbatim>\<open>computeCacheKey\<close> throws although no empty hash was returned.
\<close>

theorem computeCacheKey_fails_on_rejected_hash:
  "isl (snd (computeCacheKey env_hash_rejects (supportedPackageManager env_hash_rejects ! 0) [])) \<and>
   hashFiles env_hash_rejects
     (join_with (js [CHR 0x0A])
        (effective_pattern (supportedPackageManager env_hash_rejects ! 0) [])) \<noteq> Inr []"
  by (simp add: computeCacheKey_def env_hash_rejects_def)

text \<open>
  C6: a non-empty override is trimmed and split at line feeds, and these patterns alone are
  hashed (joined by line feeds again, which gives back the trimmed override); with the
  empty override the patterns of the descriptor are hashed.
\<close>

theorem override_replaces_default_patterns:
  "(cdp \<noteq> [] \<longrightarrow>
      effective_pattern pm cdp = split_nl (trim cdp) \<and>
      fst (computeCacheKey e pm cdp) =
        [HashFiles (join_with (js [CHR 0x0A]) (split_nl (trim cdp)))] \<and>
      join_with (js [CHR 0x0A]) (split_nl (trim cdp)) = trim cdp) \<and>
   (cdp = [] \<longrightarrow>
      effective_pattern pm cdp = pattern pm \<and>
      fst (computeCacheKey e pm cdp) = [HashFiles (join_with (js [CHR 0x0A]) (pattern pm))])"
  by (auto simp add: computeCacheKey_def effective_pattern_def Let_def js_nl join_split_nl
      split: sum.splits)

text \<open>Gradle with the two-line override of the tests, and without override.\<close>

theorem override_replaces_default_patterns_witness:
  "js (''*.gradle*'' @ [CHR 0x0A] @ ''sub-project2/**/*.gradle*'' @ [CHR 0x0A]) \<noteq> [] \<and>
   effective_pattern (supportedPackageManager env0 ! 1)
       (js (''*.gradle*'' @ [CHR 0x0A] @ ''sub-project2/**/*.gradle*'' @ [CHR 0x0A])) =
     [js ''*.gradle*'', js ''sub-project2/**/*.gradle*''] \<and>
   fst (computeCacheKey env0 (supportedPackageManager env0 ! 1)
       (js (''*.gradle*'' @ [CHR 0x0A] @ ''sub-project2/**/*.gradle*'' @ [CHR 0x0A]))) =
     [HashFiles (js (''*.gradle*'' @ [CHR 0x0A] @ ''sub-project2/**/*.gradle*''))] \<and>
   fst (computeCacheKey env0 (supportedPackageManager env0 ! 1) []) =
     [HashFiles (js (''gradle/wrapper/gradle-wrapper.properties'' @ [CHR 0x0A] @
                     ''gradle.properties*'' @ [CHR 0x0A] @ ''settings.gradle*''))]"
proof -
  let ?pm = "supportedPackageManager env0 ! 1"
  let ?cdp = "js (''*.gradle*'' @ [CHR 0x0A] @ ''sub-project2/**/*.gradle*'' @ [CHR 0x0A])"
  have ne: "?cdp \<noteq> []"
    by (simp add: js_def)
  have t: "trim ?cdp = js (''*.gradle*'' @ [CHR 0x0A] @ ''sub-project2/**/*.gradle*'')"
    by (simp add: trim_def js_def isWhiteSpace_def)
  have s: "split_nl (js (''*.gradle*'' @ [CHR 0x0A] @ ''sub-project2/**/*.gradle*'')) =
           [js ''*.gradle*'', js ''sub-project2/**/*.gradle*'']"
    by (simp add: js_def)
  have p: "join_with (js [CHR 0x0A]) (pattern ?pm) =
           js (''gradle/wrapper/gradle-wrapper.properties'' @ [CHR 0x0A] @
               ''gradle.properties*'' @ [CHR 0x0A] @ ''settings.gradle*'')"
    by (simp add: supportedPackageManager_def js_def)
  from override_replaces_default_patterns [of ?cdp ?pm env0] ne
  have 1: "effective_pattern ?pm ?cdp = split_nl (trim ?cdp)"
    and 2: "fst (computeCacheKey env0 ?pm ?cdp) = [HashFiles (trim ?cdp)]"
    by simp_all
  from override_replaces_default_patterns [of "[]" ?pm env0]
  have 3: "fst (computeCacheKey env0 ?pm []) = [HashFiles (join_with (js [CHR 0x0A]) (pattern ?pm))]"
    by simp
  from ne 1 2 3 show ?thesis
    by (simp only: t s p simp_thms)
qed

section \<open>Restoring\<close>

text \<open>
  C2: for a supported id (one that \<^verbatim>\<open>findPackageManager\<close> finds) and a computed primary
  key, \<^verbatim>\<open>restore\<close> hashes, logs the key and saves it under \<^verbatim>\<open>cache-primary-key\<close>,
  whatever \<^verbatim>\<open>performRestore\<close> is. With \<^verbatim>\<open>performRestore\<close> it asks the store once, with
  the paths of the descriptor, the primary key and the single fallback key made of prefix,
  platform and id. Without it the call ends there: the store is not asked and
  \<^verbatim>\<open>cache-matched-key\<close> is not written.
\<close>

theorem restore_persists_primary_key:
  assumes "findPackageManager e i = Inr pm"
    and "snd (computeCacheKey e pm cdp) = Inr primaryKey"
  shows "take 3 (fst (restore e i cdp performRestore)) =
           [HashFiles (join_with (js [CHR 0x0A]) (effective_pattern pm cdp)),
            Debug (js ''primary key is '' @ primaryKey),
            SaveState STATE_CACHE_PRIMARY_KEY primaryKey] \<and>
         slot_writes STATE_CACHE_PRIMARY_KEY (fst (restore e i cdp performRestore)) =
           [SaveState STATE_CACHE_PRIMARY_KEY primaryKey] \<and>
         (performRestore \<longrightarrow>
            store_calls (fst (restore e i cdp performRestore)) =
              [RestoreCache (path pm) primaryKey
                 [CACHE_KEY_PREFIX @ js ''-'' @ template (RUNNER_OS e) @ js ''-'' @ i]]) \<and>
         (\<not> performRestore \<longrightarrow>
            restore e i cdp performRestore =
              ([HashFiles (join_with (js [CHR 0x0A]) (effective_pattern pm cdp)),
                Debug (js ''primary key is '' @ primaryKey),
                SaveState STATE_CACHE_PRIMARY_KEY primaryKey], Inr ()) \<and>
            store_calls (fst (restore e i cdp performRestore)) = [] \<and>
            slot_writes CACHE_MATCHED_KEY (fst (restore e i cdp performRestore)) = [])"
  using slots_distinct
  by (simp add: restore_unfold [OF assms] find_id [OF assms(1)] Let_def slot_writes_def
      store_calls_def split: sum.splits option.splits)

text \<open>Maven on the Linux runner, without and with \<^verbatim>\<open>performRestore\<close>.\<close>

theorem restore_persists_primary_key_witness:
  "restore env_exact (js ''maven'') [] False =
     ([HashFiles (js ''**/pom.xml''),
       Debug (js ''primary key is setup-java-Linux-maven-abc''),
       SaveState (js ''cache-primary-key'') (js ''setup-java-Linux-maven-abc'')], Inr ()) \<and>
   store_calls (fst (restore env_exact (js ''maven'') [] True)) =
     [RestoreCache [js ''/home/runner/.m2/repository''] (js ''setup-java-Linux-maven-abc'')
        [js ''setup-java-Linux-maven'']] \<and>
   slot_writes (js ''cache-primary-key'') (fst (restore env_exact (js ''maven'') [] True)) =
     [SaveState (js ''cache-primary-key'') (js ''setup-java-Linux-maven-abc'')]"
proof -
  have k: "snd (computeCacheKey env_exact (supportedPackageManager env_exact ! 0) []) =
           Inr (js ''setup-java-Linux-maven-abc'')"
    by (rule maven_key) (simp_all add: env_exact_def)
  have p: "path (supportedPackageManager env_exact ! 0) = [js ''/home/runner/.m2/repository'']"
    by (rule maven_path) (simp_all add: eval_env)
  have a: "join_with (js [CHR 0x0A]) (effective_pattern (supportedPackageManager env_exact ! 0) []) =
           js ''**/pom.xml''"
    by (simp add: effective_pattern_def supportedPackageManager_def)
  have d: "js ''primary key is '' @ js ''setup-java-Linux-maven-abc'' =
           js ''primary key is setup-java-Linux-maven-abc''"
    by (simp add: js_def)
  have r: "CACHE_KEY_PREFIX @ js ''-'' @ template (RUNNER_OS env_exact) @ js ''-'' @ js ''maven'' =
           js ''setup-java-Linux-maven''"
    by (simp add: eval_consts eval_env js_def)
  have 1: "restore env_exact (js ''maven'') [] False =
     ([HashFiles (js ''**/pom.xml''),
       Debug (js ''primary key is setup-java-Linux-maven-abc''),
       SaveState (js ''cache-primary-key'') (js ''setup-java-Linux-maven-abc'')], Inr ())"
    using restore_persists_primary_key [OF find_maven k, of False]
    by (simp add: a d STATE_CACHE_PRIMARY_KEY_def)
  have 2: "store_calls (fst (restore env_exact (js ''maven'') [] True)) =
     [RestoreCache [js ''/home/runner/.m2/repository''] (js ''setup-java-Linux-maven-abc'')
        [js ''setup-java-Linux-maven'']] \<and>
   slot_writes (js ''cache-primary-key'') (fst (restore env_exact (js ''maven'') [] True)) =
     [SaveState (js ''cache-primary-key'') (js ''setup-java-Linux-maven-abc'')]"
    using restore_persists_primary_key [OF find_maven k, of True]
    by (simp add: p r STATE_CACHE_PRIMARY_KEY_def)
  from 1 2 show ?thesis by (simp only: simp_thms)
qed

text \<open>
  C3: with \<^verbatim>\<open>performRestore\<close>, when the store answers with a non-empty matched key,
  \<^verbatim>\<open>restore\<close> saves it under \<^verbatim>\<open>cache-matched-key\<close>, sets the output
  \<^verbatim>\<open>cache-hit\<close> to whether it equals the primary key and reports the matched key; when
  the store answers with no key, it sets \<^verbatim>\<open>cache-hit\<close> to false, reports that no cache
  is found for the primary key and does not write \<^verbatim>\<open>cache-matched-key\<close>.
\<close>

theorem restore_records_outcome:
  assumes "findPackageManager e i = Inr pm"
    and "snd (computeCacheKey e pm cdp) = Inr primaryKey"
    and "restoreCache e (path pm) primaryKey
           [CACHE_KEY_PREFIX @ js ''-'' @ template (RUNNER_OS e) @ js ''-'' @ i] = Inr matchedKey"
  shows "(\<forall>m. matchedKey = Some m \<and> m \<noteq> [] \<longrightarrow>
            restore e i cdp True =
              ([HashFiles (join_with (js [CHR 0x0A]) (effective_pattern pm cdp)),
                Debug (js ''primary key is '' @ primaryKey),
                SaveState STATE_CACHE_PRIMARY_KEY primaryKey,
                RestoreCache (path pm) primaryKey
                  [CACHE_KEY_PREFIX @ js ''-'' @ template (RUNNER_OS e) @ js ''-'' @ i],
                SaveState CACHE_MATCHED_KEY m,
                SetOutput (js ''cache-hit'') (m = primaryKey),
                Info (js ''Cache restored from key: '' @ m)], Inr ()) \<and>
            slot_writes CACHE_MATCHED_KEY (fst (restore e i cdp True)) =
              [SaveState CACHE_MATCHED_KEY m]) \<and>
         (matchedKey = None \<or> matchedKey = Some [] \<longrightarrow>
            restore e i cdp True =
              ([HashFiles (join_with (js [CHR 0x0A]) (effective_pattern pm cdp)),
                Debug (js ''primary key is '' @ primaryKey),
                SaveState STATE_CACHE_PRIMARY_KEY primaryKey,
                RestoreCache (path pm) primaryKey
                  [CACHE_KEY_PREFIX @ js ''-'' @ template (RUNNER_OS e) @ js ''-'' @ i],
                SetOutput (js ''cache-hit'') False,
                Info (i @ js '' cache is not found for key '' @ primaryKey)], Inr ()) \<and>
            slot_writes CACHE_MATCHED_KEY (fst (restore e i cdp True)) = [])"
  using slots_distinct assms(3)
  by (auto simp add: restore_unfold [OF assms(1,2)] find_id [OF assms(1)] Let_def slot_writes_def)

text \<open>An exact hit, a hit on the fallback key and a miss.\<close>

theorem restore_records_outcome_witness:
  "restore env_exact (js ''maven'') [] True =
     ([HashFiles (js ''**/pom.xml''),
       Debug (js ''primary key is setup-java-Linux-maven-abc''),
       SaveState (js ''cache-primary-key'') (js ''setup-java-Linux-maven-abc''),
       RestoreCache [js ''/home/runner/.m2/repository''] (js ''setup-java-Linux-maven-abc'')
         [js ''setup-java-Linux-maven''],
       SaveState (js ''cache-matched-key'') (js ''setup-java-Linux-maven-abc''),
       SetOutput (js ''cache-hit'') True,
       Info (js ''Cache restored from key: setup-java-Linux-maven-abc'')], Inr ()) \<and>
   restore env_fallback (js ''maven'') [] True =
     ([HashFiles (js ''**/pom.xml''),
       Debug (js ''primary key is setup-java-Linux-maven-abc''),
       SaveState (js ''cache-primary-key'') (js ''setup-java-Linux-maven-abc''),
       RestoreCache [js ''/home/runner/.m2/repository''] (js ''setup-java-Linux-maven-abc'')
         [js ''setup-java-Linux-maven''],
       SaveState (js ''cache-matched-key'') (js ''setup-java-Linux-maven-old''),
       SetOutput (js ''cache-hit'') False,
       Info (js ''Cache restored from key: setup-java-Linux-maven-old'')], Inr ()) \<and>
   restore env0 (js ''maven'') [] True =
     ([HashFiles (js ''**/pom.xml''),
       Debug (js ''primary key is setup-java-Linux-maven-abc''),
       SaveState (js ''cache-primary-key'') (js ''setup-java-Linux-maven-abc''),
       RestoreCache [js ''/home/runner/.m2/repository''] (js ''setup-java-Linux-maven-abc'')
         [js ''setup-java-Linux-maven''],
       SetOutput (js ''cache-hit'') False,
       Info (js ''maven cache is not found for key setup-java-Linux-maven-abc'')], Inr ())"
proof -
  let ?k = "js ''setup-java-Linux-maven-abc''"
  have k: "?k \<noteq> []" and o: "js ''setup-java-Linux-maven-old'' \<noteq> []"
    by (simp_all add: js_def)
  have 1: "restoreCache env_exact (path (supportedPackageManager env_exact ! 0)) ?k
             [CACHE_KEY_PREFIX @ js ''-'' @ template (RUNNER_OS env_exact) @ js ''-'' @ js ''maven'']
           = Inr (Some ?k)"
    by (simp add: env_exact_def)
  have 2: "restoreCache env_fallback (path (supportedPackageManager env_fallback ! 0)) ?k
             [CACHE_KEY_PREFIX @ js ''-'' @ template (RUNNER_OS env_fallback) @ js ''-'' @ js ''maven'']
           = Inr (Some (js ''setup-java-Linux-maven-old''))"
    by (simp add: env_fallback_def)
  have 3: "restoreCache env0 (path (supportedPackageManager env0 ! 0)) ?k
             [CACHE_KEY_PREFIX @ js ''-'' @ template (RUNNER_OS env0) @ js ''-'' @ js ''maven'']
           = Inr None"
    by (simp add: env0_def)
  have a: "restore env_exact (js ''maven'') [] True = 
     ([HashFiles (js ''**/pom.xml''),
       Debug (js ''primary key is setup-java-Linux-maven-abc''),
       SaveState (js ''cache-primary-key'') (js ''setup-java-Linux-maven-abc''),
       RestoreCache [js ''/home/runner/.m2/repository''] (js ''setup-java-Linux-maven-abc'')
         [js ''setup-java-Linux-maven''],
       SaveState (js ''cache-matched-key'') (js ''setup-java-Linux-maven-abc''),
       SetOutput (js ''cache-hit'') True,
       Info (js ''Cache restored from key: setup-java-Linux-maven-abc'')], Inr ())"
    using restore_records_outcome [OF find_maven maven_key 1] k
    by (simp add: env_exact_def effective_pattern_def supportedPackageManager_def eval_env
        eval_consts js_def)
  have b: "restore env_fallback (js ''maven'') [] True =
     ([HashFiles (js ''**/pom.xml''),
       Debug (js ''primary key is setup-java-Linux-maven-abc''),
       SaveState (js ''cache-primary-key'') (js ''setup-java-Linux-maven-abc''),
       RestoreCache [js ''/home/runner/.m2/repository''] (js ''setup-java-Linux-maven-abc'')
         [js ''setup-java-Linux-maven''],
       SaveState (js ''cache-matched-key'') (js ''setup-java-Linux-maven-old''),
       SetOutput (js ''cache-hit'') False,
       Info (js ''Cache restored from key: setup-java-Linux-maven-old'')], Inr ())"
    using restore_records_outcome [OF find_maven maven_key 2] o
    by (simp add: env_fallback_def effective_pattern_def supportedPackageManager_def eval_env
        eval_consts js_def)
  have c: "restore env0 (js ''maven'') [] True =
     ([HashFiles (js ''**/pom.xml''),
       Debug (js ''primary key is setup-java-Linux-maven-abc''),
       SaveState (js ''cache-primary-key'') (js ''setup-java-Linux-maven-abc''),
       RestoreCache [js ''/home/runner/.m2/repository''] (js ''setup-java-Linux-maven-abc'')
         [js ''setup-java-Linux-maven''],
       SetOutput (js ''cache-hit'') False,
       Info (js ''maven cache is not found for key setup-java-Linux-maven-abc'')], Inr ())"
    using restore_records_outcome [OF find_maven maven_key 3]
    by (simp add: effective_pattern_def supportedPackageManager_def eval_env
        eval_consts js_def)
  from a b c show ?thesis by (simp only: simp_thms)
qed

section \<open>Saving\<close>

text \<open>
  C1: for maven, gradle and sbt, \<^verbatim>\<open>save\<close> without \<^verbatim>\<open>forceUpdate\<close> warns and returns when
  no primary key was saved, reports the hit and returns when the matched key is the primary
  key, and otherwise asks the store once to save the paths of the descriptor under the
  primary key; with \<^verbatim>\<open>forceUpdate\<close> it always asks the store so.
\<close>

theorem save_decision_policy:
  assumes "i \<in> {js ''maven'', js ''gradle'', js ''sbt''}"
  shows "\<exists>pm. findPackageManager e i = Inr pm \<and> id_pm pm = i \<and>
     (getState e STATE_CACHE_PRIMARY_KEY = [] \<longrightarrow>
        save e i False = ([Warning (js ''Error retrieving key from state.'')], Inr ())) \<and>
     (getState e STATE_CACHE_PRIMARY_KEY \<noteq> [] \<and>
      getState e CACHE_MATCHED_KEY = getState e STATE_CACHE_PRIMARY_KEY \<longrightarrow>
        save e i False =
          ([Info (js ''Cache hit occurred on the primary key '' @
                  getState e STATE_CACHE_PRIMARY_KEY @ js '', not saving cache.'')], Inr ())) \<and>
     (getState e STATE_CACHE_PRIMARY_KEY \<noteq> [] \<and>
      getState e CACHE_MATCHED_KEY \<noteq> getState e STATE_CACHE_PRIMARY_KEY \<longrightarrow>
        store_calls (fst (save e i False)) =
          [SaveCache (path pm) (getState e STATE_CACHE_PRIMARY_KEY)]) \<and>
     store_calls (fst (save e i True)) =
       [SaveCache (path pm) (getState e STATE_CACHE_PRIMARY_KEY)]"
proof -
  from find_supported [OF assms, of e]
  obtain pm where f: "findPackageManager e i = Inr pm" and n: "id_pm pm = i"
    by blast
  show ?thesis
    using f n by (simp add: save_unforced [OF f] save_forced [OF f] save_try_store_calls)
qed

text \<open>No saved state, an exact hit, a hit on the fallback key, and a forced save.\<close>

theorem save_decision_policy_witness:
  "js ''maven'' \<in> {js ''maven'', js ''gradle'', js ''sbt''} \<and>
   save env0 (js ''maven'') False =
     ([Warning (js ''Error retrieving key from state.'')], Inr ()) \<and>
   save env_hit (js ''maven'') False =
     ([Info (js ''Cache hit occurred on the primary key setup-java-Linux-maven-abc, not saving cache.'')],
      Inr ()) \<and>
   store_calls (fst (save env_miss (js ''maven'') False)) =
     [SaveCache [js ''/home/runner/.m2/repository''] (js ''setup-java-Linux-maven-abc'')] \<and>
   store_calls (fst (save env_hit (js ''maven'') True)) =
     [SaveCache [js ''/home/runner/.m2/repository''] (js ''setup-java-Linux-maven-abc'')]"
proof -
  have m: "js ''Cache hit occurred on the primary key '' @ js ''setup-java-Linux-maven-abc'' @
             js '', not saving cache.'' =
           js ''Cache hit occurred on the primary key setup-java-Linux-maven-abc, not saving cache.''"
    by (simp add: js_def)
  have s0: "getState env0 STATE_CACHE_PRIMARY_KEY = []"
    by (simp add: env0_def)
  have a: "save env0 (js ''maven'') False =
     ([Warning (js ''Error retrieving key from state.'')], Inr ())"
    using save_decision_policy [OF supported_maven, of env0] s0 by blast
  from save_decision_policy [OF supported_maven, of env_hit]
  obtain pm where f: "findPackageManager env_hit (js ''maven'') = Inr pm"
    and h: "getState env_hit STATE_CACHE_PRIMARY_KEY \<noteq> [] \<and>
            getState env_hit CACHE_MATCHED_KEY = getState env_hit STATE_CACHE_PRIMARY_KEY \<longrightarrow>
            save env_hit (js ''maven'') False =
              ([Info (js ''Cache hit occurred on the primary key '' @
                      getState env_hit STATE_CACHE_PRIMARY_KEY @ js '', not saving cache.'')],
               Inr ())"
    and t: "store_calls (fst (save env_hit (js ''maven'') True)) =
              [SaveCache (path pm) (getState env_hit STATE_CACHE_PRIMARY_KEY)]"
    by blast
  from f have pm: "pm = supportedPackageManager env_hit ! 0"
    by (simp add: find_maven)
  have ph: "path pm = [js ''/home/runner/.m2/repository'']"
    unfolding pm by (rule maven_path) (simp_all add: env_hit_def env0_def)
  have b: "save env_hit (js ''maven'') False =
     ([Info (js ''Cache hit occurred on the primary key setup-java-Linux-maven-abc, not saving cache.'')],
      Inr ())"
    using h key_facts by (simp add: state_env_hit m)
  have d: "store_calls (fst (save env_hit (js ''maven'') True)) =
     [SaveCache [js ''/home/runner/.m2/repository''] (js ''setup-java-Linux-maven-abc'')]"
    using t by (simp add: state_env_hit ph)
  from save_decision_policy [OF supported_maven, of env_miss]
  obtain qm where g: "findPackageManager env_miss (js ''maven'') = Inr qm"
    and u: "getState env_miss STATE_CACHE_PRIMARY_KEY \<noteq> [] \<and>
            getState env_miss CACHE_MATCHED_KEY \<noteq> getState env_miss STATE_CACHE_PRIMARY_KEY \<longrightarrow>
            store_calls (fst (save env_miss (js ''maven'') False)) =
              [SaveCache (path qm) (getState env_miss STATE_CACHE_PRIMARY_KEY)]"
    by blast
  from g have qm: "qm = supportedPackageManager env_miss ! 0"
    by (simp add: find_maven)
  have pq: "path qm = [js ''/home/runner/.m2/repository'']"
    unfolding qm by (rule maven_path) (simp_all add: env_miss_def env0_def)
  have c: "store_calls (fst (save env_miss (js ''maven'') False)) =
     [SaveCache [js ''/home/runner/.m2/repository''] (js ''setup-java-Linux-maven-abc'')]"
    using u key_facts by (simp add: state_env_miss pq)
  from a b c d show ?thesis by (simp only: simp_thms supported_maven)
qed

text \<open>
  C10: with \<^verbatim>\<open>forceUpdate\<close> and no saved primary key, \<^verbatim>\<open>save\<close> asks the store to save
  under the empty key, where the unforced call asks nothing of the store.
\<close>

theorem forced_save_with_empty_key:
  assumes "i \<in> {js ''maven'', js ''gradle'', js ''sbt''}"
    and "getState e STATE_CACHE_PRIMARY_KEY = []"
  shows "\<exists>pm. findPackageManager e i = Inr pm \<and> id_pm pm = i \<and>
     store_calls (fst (save e i True)) = [SaveCache (path pm) []] \<and>
     hd (fst (save e i True)) = SaveCache (path pm) [] \<and>
     store_calls (fst (save e i False)) = []"
proof -
  from find_supported [OF assms(1), of e]
  obtain pm where f: "findPackageManager e i = Inr pm" and n: "id_pm pm = i"
    by blast
  have "hd (fst (save_try e pm [])) = SaveCache (path pm) []"
    by (simp add: save_try_def split: sum.splits)
  then show ?thesis
    using f n assms(2)
    by (simp add: save_unforced [OF f] save_forced [OF f] save_try_store_calls store_calls_single)
qed

text \<open>Maven with no saved state.\<close>

theorem forced_save_with_empty_key_witness:
  "js ''maven'' \<in> {js ''maven'', js ''gradle'', js ''sbt''} \<and>
   getState env0 STATE_CACHE_PRIMARY_KEY = [] \<and>
   store_calls (fst (save env0 (js ''maven'') True)) =
     [SaveCache [js ''/home/runner/.m2/repository''] []] \<and>
   hd (fst (save env0 (js ''maven'') True)) =
     SaveCache [js ''/home/runner/.m2/repository''] [] \<and>
   store_calls (fst (save env0 (js ''maven'') False)) = []"
proof -
  have s: "getState env0 STATE_CACHE_PRIMARY_KEY = []"
    by (simp add: env0_def)
  from forced_save_with_empty_key [OF supported_maven s]
  obtain pm where f: "findPackageManager env0 (js ''maven'') = Inr pm"
    and t: "store_calls (fst (save env0 (js ''maven'') True)) = [SaveCache (path pm) []]"
    and h: "hd (fst (save env0 (js ''maven'') True)) = SaveCache (path pm) []"
    and u: "store_calls (fst (save env0 (js ''maven'') False)) = []"
    by blast
  from f have pm: "pm = supportedPackageManager env0 ! 0"
    by (simp add: find_maven)
  have p: "path pm = [js ''/home/runner/.m2/repository'']"
    unfolding pm by (rule maven_path) (simp_all add: env0_def)
  from s t h u show ?thesis
    by (simp only: p simp_thms supported_maven)
qed



end
